theory Spec2Isabelle
  imports Main "HOL-Library.Word" "HOL-Library.Char_ord" "HOL-Library.List_Lexorder"
begin

unbundle bit_operations_syntax

section \<open>A Go client for the Cloudflare v4 API: zones and DNS records\<close>

text \<open>
  The development embeds \<^verbatim>\<open>cloudflare.go\<close>. A Go \<^verbatim>\<open>string\<close> is a sequence of
  bytes and is modelled by \<^typ>\<open>string\<close> (a list of 8-bit characters); \<^verbatim>\<open>uint64\<close> and
  \<^verbatim>\<open>int\<close> (on a 64-bit platform) are \<^typ>\<open>64 word\<close>, the latter read with the signed
  operations. A slice is modelled by the list of its elements, the nil slice by the
  empty list. Functions of the Go standard library that the code calls
  (\<^verbatim>\<open>net/url\<close>, \<^verbatim>\<open>fmt\<close>, \<^verbatim>\<open>encoding/json\<close>) are modelled by what they compute on the
  types the code uses them at.
\<close>

subsection \<open>Constants\<close>

definition ContentTypeApplicationJson :: string where
  "ContentTypeApplicationJson = ''application/json''"

definition ApiUrlBase :: string where
  "ApiUrlBase = ''https://api.cloudflare.com/client/v4''"

definition APiUrlZones :: string where
  "APiUrlZones = ''/zones/''"

definition ApiUrlDnsRecords :: string where
  "ApiUrlDnsRecords = ''/dns_records/''"

subsection \<open>Data\<close>

text \<open>
  The structs of the source. \<^verbatim>\<open>Id\<close> of \<^verbatim>\<open>DNSRecord\<close> is written \<open>Id'\<close>, and the
  fields of \<^verbatim>\<open>Zone\<close> that share a name with a field of \<^verbatim>\<open>DNSRecord\<close> carry the prefix
  \<open>Zone_\<close>. \<^verbatim>\<open>json.RawMessage\<close> is a byte string. The type \<open>error\<close> keeps the kind of
  an error and drops its message.
\<close>

record DNSRecord_Meta =
  AutoAdded :: bool

record DNSRecord =
  Id' :: string
  Type :: string
  Name :: string
  Content :: string
  Proxiable :: bool
  Proxied :: bool
  Ttl :: "64 word"
  Locked :: bool
  ZoneId :: string
  ZoneName :: string
  ModifiedOn :: string
  CreatedOn :: string
  Meta :: DNSRecord_Meta

record Zone =
  Zone_Name :: string
  Zone_Id :: string
  Zone_Type :: string
  NameServers :: "string list"
  Status :: string
  Paused :: bool
  OriginalNameServers :: "string list"
  DevelopmentMode :: "64 word"

record Message_ResultInfo =
  Page :: "64 word"
  PerPage :: "64 word"
  TotalPages :: "64 word"
  Count :: "64 word"
  TotalCount :: "64 word"

record Message =
  Success :: bool
  Errors :: string
  Messages :: string
  Result :: string
  ResultInfo :: Message_ResultInfo

datatype error = SyntaxError | UnmarshalTypeError | TransportError string

abbreviation DQ :: char where "DQ \<equiv> CHR 0x22"
abbreviation BS :: char where "BS \<equiv> CHR 0x5C"

subsection \<open>net/url: query escaping and \<^verbatim>\<open>url.Values\<close>\<close>

text \<open>
  \<^verbatim>\<open>shouldEscape(c, encodeQueryComponent)\<close>: letters, digits and the four marks
  \<^verbatim>\<open>- _ . ~\<close> are kept, every other byte is escaped.
\<close>

definition shouldEscape :: "char \<Rightarrow> bool" where
  "shouldEscape c =
     (if (CHR ''a'' \<le> c \<and> c \<le> CHR ''z'') \<or> (CHR ''A'' \<le> c \<and> c \<le> CHR ''Z'')
          \<or> (CHR ''0'' \<le> c \<and> c \<le> CHR ''9'') then False
      else if c = CHR ''-'' \<or> c = CHR ''_'' \<or> c = CHR ''.'' \<or> c = CHR ''~'' then False
      else True)"

definition upperhex :: string where
  "upperhex = ''0123456789ABCDEF''"

text \<open>
  \<^verbatim>\<open>url.QueryEscape\<close>: a space becomes \<^verbatim>\<open>+\<close>, any other escaped byte \<^verbatim>\<open>c\<close> becomes
  \<^verbatim>\<open>%\<close> followed by \<^verbatim>\<open>upperhex[c>>4]\<close> and \<^verbatim>\<open>upperhex[c&15]\<close>.
\<close>

fun QueryEscape :: "string \<Rightarrow> string" where
  "QueryEscape [] = []"
| "QueryEscape (c # s) =
     (if shouldEscape c then
        (if c = CHR '' '' then [CHR ''+'']
         else [CHR ''%'', upperhex ! ((of_char c :: nat) div 16), upperhex ! ((of_char c :: nat) mod 16)])
      else [c]) @ QueryEscape s"

text \<open>
  \<^verbatim>\<open>url.Values\<close> is \<^verbatim>\<open>map[string][]string\<close>. The model keeps one entry per key, in
  the order the keys were first added; \<^verbatim>\<open>Encode\<close> does not depend on that order because
  it sorts the keys.
\<close>

type_synonym Values = "(string \<times> string list) list"

definition Values_Add :: "Values \<Rightarrow> string \<Rightarrow> string \<Rightarrow> Values" where
  "Values_Add v key val =
     (case map_of v key of
        None \<Rightarrow> v @ [(key, [val])]
      | Some vs \<Rightarrow> map (\<lambda>(k, xs). if k = key then (k, xs @ [val]) else (k, xs)) v)"

definition Values_Get_all :: "Values \<Rightarrow> string \<Rightarrow> string list" where
  "Values_Get_all v key = (case map_of v key of None \<Rightarrow> [] | Some vs \<Rightarrow> vs)"

text \<open>
  \<^verbatim>\<open>Values.Encode\<close>: the keys are sorted (bytewise), and for every value of every key
  the buffer receives \<^verbatim>\<open>&\<close> (unless it is still empty), the escaped key, \<^verbatim>\<open>=\<close> and
  the escaped value.
\<close>

definition Encode_write :: "string \<Rightarrow> string \<Rightarrow> string \<Rightarrow> string" where
  "Encode_write keyEscaped buf val =
     (if buf \<noteq> [] then buf @ ''&'' else buf) @ keyEscaped @ ''='' @ QueryEscape val"

definition Values_Encode :: "Values \<Rightarrow> string" where
  "Values_Encode v =
     foldl (\<lambda>buf k. foldl (Encode_write (QueryEscape k)) buf (Values_Get_all v k))
       [] (sort (map fst v))"

subsection \<open>fmt: \<^verbatim>\<open>%d\<close>\<close>

definition digit_chars :: string where
  "digit_chars = ''0123456789''"

fun decimal :: "nat \<Rightarrow> string" where
  "decimal n = (if n < 10 then [digit_chars ! n] else decimal (n div 10) @ [digit_chars ! (n mod 10)])"

declare decimal.simps [simp del]

definition Sprintf_d :: "int \<Rightarrow> string" where
  "Sprintf_d i = (if i < 0 then CHR ''-'' # decimal (nat (- i)) else decimal (nat i))"

subsection \<open>unicode/utf8\<close>

definition in_range :: "char \<Rightarrow> char \<Rightarrow> char \<Rightarrow> bool" where
  "in_range lo hi b = (lo \<le> b \<and> b \<le> hi)"

text \<open>
  \<^verbatim>\<open>utf8.DecodeRune\<close>, as far as the code depends on it: the number of bytes of the
  encoding at the head of \<^verbatim>\<open>p\<close>, with 0 where Go returns \<^verbatim>\<open>(RuneError, 1)\<close> (or
  \<^verbatim>\<open>(RuneError, 0)\<close> on the empty input). \<open>first_size\<close> is the length that the table
  \<^verbatim>\<open>first\<close> gives for the leading byte (1 for ASCII, 0 for a byte that starts nothing),
  \<open>accept_lo\<close> and \<open>accept_hi\<close> are the \<^verbatim>\<open>acceptRanges\<close> entry for the second byte.
\<close>

definition first_size :: "char \<Rightarrow> nat" where
  "first_size p0 =
     (if p0 < CHR 0x80 then 1
      else if p0 < CHR 0xC2 then 0
      else if p0 < CHR 0xE0 then 2
      else if p0 < CHR 0xF0 then 3
      else if p0 < CHR 0xF5 then 4
      else 0)"

definition accept_lo :: "char \<Rightarrow> char" where
  "accept_lo p0 = (if p0 = CHR 0xE0 then CHR 0xA0 else if p0 = CHR 0xF0 then CHR 0x90 else CHR 0x80)"

definition accept_hi :: "char \<Rightarrow> char" where
  "accept_hi p0 = (if p0 = CHR 0xED then CHR 0x9F else if p0 = CHR 0xF4 then CHR 0x8F else CHR 0xBF)"

definition DecodeRune_size :: "string \<Rightarrow> nat" where
  "DecodeRune_size p =
     (case p of
        [] \<Rightarrow> 0
      | p0 # _ \<Rightarrow>
          if first_size p0 < 2 then first_size p0
          else if length p < first_size p0 then 0
          else if \<not> in_range (accept_lo p0) (accept_hi p0) (p ! 1) then 0
          else if first_size p0 \<le> 2 then 2
          else if \<not> in_range (CHR 0x80) (CHR 0xBF) (p ! 2) then 0
          else if first_size p0 \<le> 3 then 3
          else if \<not> in_range (CHR 0x80) (CHR 0xBF) (p ! 3) then 0
          else 4)"

definition RuneError :: nat where
  "RuneError = 0xFFFD"

definition EncodeRune :: "nat \<Rightarrow> string" where
  "EncodeRune r =
     (if r < 0x80 then [char_of r]
      else if r < 0x800 then [char_of (0xC0 + r div 64), char_of (0x80 + r mod 64)]
      else if 0x10FFFF < r \<or> (0xD800 \<le> r \<and> r \<le> 0xDFFF) then [CHR 0xEF, CHR 0xBF, CHR 0xBD]
      else if r < 0x10000 then
        [char_of (0xE0 + r div 4096), char_of (0x80 + r div 64 mod 64), char_of (0x80 + r mod 64)]
      else [char_of (0xF0 + r div 262144), char_of (0x80 + r div 4096 mod 64),
            char_of (0x80 + r div 64 mod 64), char_of (0x80 + r mod 64)])"

fun valid_utf8 :: "string \<Rightarrow> bool" where
  "valid_utf8 [] = True"
| "valid_utf8 (c # s) =
     (let n = DecodeRune_size (c # s) in n \<noteq> 0 \<and> valid_utf8 (drop (n - 1) s))"

subsection \<open>encoding/json: writing\<close>

definition hex :: string where
  "hex = ''0123456789abcdef''"

definition appendString_step :: "string \<Rightarrow> string \<times> nat" where
  "appendString_step src =
     (case src of [] \<Rightarrow> ([], 0)
      | b # _ \<Rightarrow>
        if b < CHR 0x80 then
          (if b = BS \<or> b = DQ then ([BS, b], 1)
           else if b = CHR 0x08 then ([BS, CHR ''b''], 1)
           else if b = CHR 0x0C then ([BS, CHR ''f''], 1)
           else if b = CHR 0x0A then ([BS, CHR ''n''], 1)
           else if b = CHR 0x0D then ([BS, CHR ''r''], 1)
           else if b = CHR 0x09 then ([BS, CHR ''t''], 1)
           else if b < CHR 0x20 \<or> b = CHR ''<'' \<or> b = CHR ''>'' \<or> b = CHR ''&'' then
             ([BS, CHR ''u'', CHR ''0'', CHR ''0'',
               hex ! ((of_char b :: nat) div 16), hex ! ((of_char b :: nat) mod 16)], 1)
           else ([b], 1))
        else
          (let size = DecodeRune_size src in
           if size = 0 then (BS # ''ufffd'', 1)
           else if take size src = [CHR 0xE2, CHR 0x80, CHR 0xA8] then (BS # ''u2028'', size)
           else if take size src = [CHR 0xE2, CHR 0x80, CHR 0xA9] then (BS # ''u2029'', size)
           else (take size src, size)))"

fun appendString_body :: "string \<Rightarrow> string" where
  "appendString_body [] = []"
| "appendString_body (b # src) =
     (let (out, n) = appendString_step (b # src) in out @ appendString_body (drop (n - 1) src))"

definition appendString :: "string \<Rightarrow> string" where
  "appendString src = DQ # appendString_body src @ [DQ]"

definition appendBool :: "bool \<Rightarrow> string" where
  "appendBool b = (if b then ''true'' else ''false'')"

definition appendUint :: "64 word \<Rightarrow> string" where
  "appendUint w = decimal (unat w)"

fun join_comma :: "string list \<Rightarrow> string" where
  "join_comma [] = []"
| "join_comma [p] = p"
| "join_comma (p # q # ps) = p @ '','' @ join_comma (q # ps)"

definition member :: "string \<times> string \<Rightarrow> string" where
  "member kv = DQ # fst kv @ DQ # CHR '':'' # snd kv"

definition encode_object :: "(string \<times> string) list \<Rightarrow> string" where
  "encode_object fs = ''{'' @ join_comma (map member fs) @ ''}''"

definition omitempty :: "bool \<Rightarrow> string \<Rightarrow> string \<Rightarrow> (string \<times> string) list" where
  "omitempty isEmpty name val = (if isEmpty then [] else [(name, val)])"

definition Meta_fields :: "DNSRecord_Meta \<Rightarrow> (string \<times> string) list" where
  "Meta_fields m = omitempty (\<not> AutoAdded m) ''auto_added'' (appendBool (AutoAdded m))"

definition DNSRecord_fields :: "DNSRecord \<Rightarrow> (string \<times> string) list" where
  "DNSRecord_fields d =
     omitempty (Id' d = []) ''id'' (appendString (Id' d))
     @ omitempty (Type d = []) ''type'' (appendString (Type d))
     @ omitempty (Name d = []) ''name'' (appendString (Name d))
     @ omitempty (Content d = []) ''content'' (appendString (Content d))
     @ omitempty (\<not> Proxiable d) ''proxiable'' (appendBool (Proxiable d))
     @ omitempty (\<not> Proxied d) ''proxied'' (appendBool (Proxied d))
     @ omitempty (Ttl d = 0) ''ttl'' (appendUint (Ttl d))
     @ omitempty (\<not> Locked d) ''locked'' (appendBool (Locked d))
     @ omitempty (ZoneId d = []) ''zone_id'' (appendString (ZoneId d))
     @ omitempty (ZoneName d = []) ''zone_name'' (appendString (ZoneName d))
     @ omitempty (ModifiedOn d = []) ''modified_on'' (appendString (ModifiedOn d))
     @ omitempty (CreatedOn d = []) ''created_on'' (appendString (CreatedOn d))
     @ [(''meta'', encode_object (Meta_fields (Meta d)))]"

definition Marshal_DNSRecord :: "DNSRecord \<Rightarrow> error + string" where
  "Marshal_DNSRecord d = Inr (encode_object (DNSRecord_fields d))"

definition Error_string :: "error \<Rightarrow> string" where
  "Error_string e =
     (case e of SyntaxError \<Rightarrow> ''json: syntax error''
      | UnmarshalTypeError \<Rightarrow> ''json: cannot unmarshal''
      | TransportError m \<Rightarrow> m)"

definition JsonString :: "('a \<Rightarrow> error + string) \<Rightarrow> 'a \<Rightarrow> string" where
  "JsonString marshal this =
     (case marshal this of Inl err \<Rightarrow> Error_string err | Inr out \<Rightarrow> out)"

definition DNSRecord_String :: "DNSRecord \<Rightarrow> string" where
  "DNSRecord_String d = JsonString Marshal_DNSRecord d"

definition zero_Meta :: DNSRecord_Meta where
  "zero_Meta = \<lparr>AutoAdded = False\<rparr>"

definition zero_DNSRecord :: DNSRecord where
  "zero_DNSRecord = \<lparr>Id' = [], Type = [], Name = [], Content = [], Proxiable = False,
     Proxied = False, Ttl = 0, Locked = False, ZoneId = [], ZoneName = [], ModifiedOn = [],
     CreatedOn = [], Meta = zero_Meta\<rparr>"


subsection \<open>encoding/json: the scanner\<close>

definition isSpace :: "char \<Rightarrow> bool" where
  "isSpace c = (c = CHR '' '' \<or> c = CHR 0x09 \<or> c = CHR 0x0D \<or> c = CHR 0x0A)"

definition skip_space :: "string \<Rightarrow> string" where
  "skip_space s = dropWhile isSpace s"

definition isDigit :: "char \<Rightarrow> bool" where
  "isDigit c = (CHR ''0'' \<le> c \<and> c \<le> CHR ''9'')"

definition isHex :: "char \<Rightarrow> bool" where
  "isHex c = ((CHR ''0'' \<le> c \<and> c \<le> CHR ''9'') \<or> (CHR ''a'' \<le> c \<and> c \<le> CHR ''f'')
     \<or> (CHR ''A'' \<le> c \<and> c \<le> CHR ''F''))"

text \<open>
  \<^verbatim>\<open>scan_string\<close> reads a string literal after its opening quote and returns what
  follows the closing quote (the scanner states \<^verbatim>\<open>stateInString\<close>,
  \<^verbatim>\<open>stateInStringEsc\<close>, \<^verbatim>\<open>stateInStringEscU\<close> to \<^verbatim>\<open>stateInStringEscU123\<close>).
\<close>

fun scan_string :: "string \<Rightarrow> string option" where
  "scan_string [] = None"
| "scan_string (c # s) =
     (if c = DQ then Some s
      else if c = BS then
        (case s of
           [] \<Rightarrow> None
         | e # r \<Rightarrow>
             if e = CHR ''b'' \<or> e = CHR ''f'' \<or> e = CHR ''n'' \<or> e = CHR ''r'' \<or> e = CHR ''t''
                \<or> e = BS \<or> e = CHR ''/'' \<or> e = DQ then scan_string r
             else if e = CHR ''u'' then
               (case r of
                  h1 # h2 # h3 # h4 # r' \<Rightarrow>
                    if isHex h1 \<and> isHex h2 \<and> isHex h3 \<and> isHex h4 then scan_string r' else None
                | _ \<Rightarrow> None)
             else None)
      else if c < CHR 0x20 then None
      else scan_string s)"

text \<open>
  Numbers: \<^verbatim>\<open>stateNeg\<close>, \<^verbatim>\<open>state0\<close>, \<^verbatim>\<open>state1\<close>, \<^verbatim>\<open>stateDot\<close>, \<^verbatim>\<open>stateDot0\<close>,
  \<^verbatim>\<open>stateE\<close>, \<^verbatim>\<open>stateESign\<close>, \<^verbatim>\<open>stateE0\<close>.
\<close>

definition scan_exp :: "string \<Rightarrow> string option" where
  "scan_exp s =
     (case s of
        [] \<Rightarrow> Some []
      | c # r \<Rightarrow>
          if c = CHR ''e'' \<or> c = CHR ''E'' then
            (case (case r of [] \<Rightarrow> r | sg # r' \<Rightarrow> if sg = CHR ''+'' \<or> sg = CHR ''-'' then r' else r) of
               [] \<Rightarrow> None
             | d # r2 \<Rightarrow> if isDigit d then Some (dropWhile isDigit r2) else None)
          else Some s)"

definition scan_frac :: "string \<Rightarrow> string option" where
  "scan_frac s =
     (case s of
        [] \<Rightarrow> Some []
      | c # r \<Rightarrow>
          if c = CHR ''.'' then
            (case r of
               [] \<Rightarrow> None
             | d # r' \<Rightarrow> if isDigit d then scan_exp (dropWhile isDigit r') else None)
          else scan_exp s)"

definition scan_number :: "string \<Rightarrow> string option" where
  "scan_number s =
     (case (case s of [] \<Rightarrow> s | c # r \<Rightarrow> if c = CHR ''-'' then r else s) of
        [] \<Rightarrow> None
      | c # r \<Rightarrow>
          if c = CHR ''0'' then scan_frac r
          else if CHR ''1'' \<le> c \<and> c \<le> CHR ''9'' then scan_frac (dropWhile isDigit r)
          else None)"

definition scan_literal :: "string \<Rightarrow> string \<Rightarrow> string option" where
  "scan_literal lit s = (if take (length lit) s = lit then Some (drop (length lit) s) else None)"

definition maxNestingDepth :: nat where
  "maxNestingDepth = 10000"

text \<open>
  One value, or the elements of an array, or the members of an object. The first
  argument bounds the number of nested calls (the callers pass more than the text is
  long), the second counts the arrays and objects that are open. An array yields the
  text of each element, an object the text of each key and of each value, both without
  the surrounding white space: this is the slice of the input that the decoder hands to
  the store functions below, and to \<^verbatim>\<open>RawMessage\<close>.
\<close>

fun scan_value :: "nat \<Rightarrow> nat \<Rightarrow> string \<Rightarrow> string option"
  and scan_array :: "nat \<Rightarrow> nat \<Rightarrow> string \<Rightarrow> (string list \<times> string) option"
  and scan_object :: "nat \<Rightarrow> nat \<Rightarrow> string \<Rightarrow> ((string \<times> string) list \<times> string) option"
where
  "scan_value 0 depth s = None"
| "scan_value (Suc n) depth s =
     (case s of
        [] \<Rightarrow> None
      | c # r \<Rightarrow>
          if c = CHR ''{'' then
            (if maxNestingDepth \<le> depth then None
             else (case skip_space r of
                     [] \<Rightarrow> None
                   | c' # r' \<Rightarrow>
                       if c' = CHR ''}'' then Some r'
                       else map_option snd (scan_object n (Suc depth) (c' # r'))))
          else if c = CHR ''['' then
            (if maxNestingDepth \<le> depth then None
             else (case skip_space r of
                     [] \<Rightarrow> None
                   | c' # r' \<Rightarrow>
                       if c' = CHR '']'' then Some r'
                       else map_option snd (scan_array n (Suc depth) (c' # r'))))
          else if c = DQ then scan_string r
          else if c = CHR ''-'' \<or> isDigit c then scan_number s
          else if c = CHR ''t'' then scan_literal ''true'' s
          else if c = CHR ''f'' then scan_literal ''false'' s
          else if c = CHR ''n'' then scan_literal ''null'' s
          else None)"
| "scan_array 0 depth s = None"
| "scan_array (Suc n) depth s =
     (case scan_value n depth s of
        None \<Rightarrow> None
      | Some r \<Rightarrow>
          (case skip_space r of
             [] \<Rightarrow> None
           | c # r' \<Rightarrow>
               if c = CHR '','' then
                 (case scan_array n depth (skip_space r') of
                    None \<Rightarrow> None
                  | Some (es, rest) \<Rightarrow> Some (take (length s - length r) s # es, rest))
               else if c = CHR '']'' then Some ([take (length s - length r) s], r')
               else None))"
| "scan_object 0 depth s = None"
| "scan_object (Suc n) depth s =
     (case s of
        [] \<Rightarrow> None
      | q # s1 \<Rightarrow>
          if q \<noteq> DQ then None
          else (case scan_string s1 of
                  None \<Rightarrow> None
                | Some r1 \<Rightarrow>
                    (case skip_space r1 of
                       [] \<Rightarrow> None
                     | c1 # r2 \<Rightarrow>
                         if c1 \<noteq> CHR '':'' then None
                         else (case scan_value n depth (skip_space r2) of
                                 None \<Rightarrow> None
                               | Some r3 \<Rightarrow>
                                   (case skip_space r3 of
                                      [] \<Rightarrow> None
                                    | c2 # r4 \<Rightarrow>
                                        if c2 = CHR '','' then
                                          (case scan_object n depth (skip_space r4) of
                                             None \<Rightarrow> None
                                           | Some (ms, rest) \<Rightarrow>
                                               Some ((take (length s - length r1) s,
                                                      take (length (skip_space r2) - length r3) (skip_space r2)) # ms,
                                                     rest))
                                        else if c2 = CHR ''}'' then
                                          Some ([(take (length s - length r1) s,
                                                  take (length (skip_space r2) - length r3) (skip_space r2))],
                                                r4)
                                        else None)))))"

definition scan_fuel :: "string \<Rightarrow> nat" where
  "scan_fuel s = Suc (length s)"

text \<open>The elements of an array text and the members of an object text.\<close>

definition array_elements :: "string \<Rightarrow> string list option" where
  "array_elements item =
     (case item of
        [] \<Rightarrow> None
      | c # r \<Rightarrow>
          if c \<noteq> CHR ''['' then None
          else (case skip_space r of
                  [] \<Rightarrow> None
                | c' # r' \<Rightarrow>
                    if c' = CHR '']'' then Some []
                    else map_option fst (scan_array (scan_fuel item) 1 (c' # r'))))"

definition object_members :: "string \<Rightarrow> (string \<times> string) list option" where
  "object_members item =
     (case item of
        [] \<Rightarrow> None
      | c # r \<Rightarrow>
          if c \<noteq> CHR ''{'' then None
          else (case skip_space r of
                  [] \<Rightarrow> None
                | c' # r' \<Rightarrow>
                    if c' = CHR ''}'' then Some []
                    else map_option fst (scan_object (scan_fuel item) 1 (c' # r'))))"


subsection \<open>encoding/json: reading literals\<close>

definition hexval :: "char \<Rightarrow> nat option" where
  "hexval c =
     (if CHR ''0'' \<le> c \<and> c \<le> CHR ''9'' then Some (of_char c - of_char CHR ''0'')
      else if CHR ''a'' \<le> c \<and> c \<le> CHR ''f'' then Some (of_char c - of_char CHR ''a'' + 10)
      else if CHR ''A'' \<le> c \<and> c \<le> CHR ''F'' then Some (of_char c - of_char CHR ''A'' + 10)
      else None)"

text \<open>\<^verbatim>\<open>getu4\<close>: the value of \<^verbatim>\<open>\uXXXX\<close> at the head of the text, if there is one.\<close>

definition getu4 :: "string \<Rightarrow> nat option" where
  "getu4 s =
     (case s of
        b # u # h1 # h2 # h3 # h4 # _ \<Rightarrow>
          if b = BS \<and> u = CHR ''u'' then
            (case (hexval h1, hexval h2, hexval h3, hexval h4) of
               (Some a, Some b, Some c, Some d) \<Rightarrow> Some (((a * 16 + b) * 16 + c) * 16 + d)
             | _ \<Rightarrow> None)
          else None
      | _ \<Rightarrow> None)"

definition IsSurrogate :: "nat \<Rightarrow> bool" where
  "IsSurrogate r = (0xD800 \<le> r \<and> r < 0xE000)"

text \<open>\<^verbatim>\<open>utf16.DecodeRune\<close>, with \<^verbatim>\<open>None\<close> for a second half that is missing.\<close>

definition utf16_DecodeRune :: "nat \<Rightarrow> nat option \<Rightarrow> nat" where
  "utf16_DecodeRune r1 r2 =
     (case r2 of
        None \<Rightarrow> RuneError
      | Some r2' \<Rightarrow>
          if 0xD800 \<le> r1 \<and> r1 < 0xDC00 \<and> 0xDC00 \<le> r2' \<and> r2' < 0xE000
          then (r1 - 0xD800) * 1024 + (r2' - 0xDC00) + 0x10000
          else RuneError)"

text \<open>
  One step of the loop of \<^verbatim>\<open>unquoteBytes\<close>: the bytes written and the number of
  bytes read, or \<^verbatim>\<open>None\<close> where the function gives up. A well-formed multi-byte
  sequence is decoded and encoded again, which writes the bytes that were read; a byte
  that starts no well-formed sequence becomes the replacement character.
\<close>

definition unquote_step :: "string \<Rightarrow> (string \<times> nat) option" where
  "unquote_step s =
     (case s of
        [] \<Rightarrow> None
      | c # r \<Rightarrow>
          if c = BS then
            (case r of
               [] \<Rightarrow> None
             | e # _ \<Rightarrow>
                 if e = DQ \<or> e = BS \<or> e = CHR ''/'' \<or> e = CHR 0x27 then Some ([e], 2)
                 else if e = CHR ''b'' then Some ([CHR 0x08], 2)
                 else if e = CHR ''f'' then Some ([CHR 0x0C], 2)
                 else if e = CHR ''n'' then Some ([CHR 0x0A], 2)
                 else if e = CHR ''r'' then Some ([CHR 0x0D], 2)
                 else if e = CHR ''t'' then Some ([CHR 0x09], 2)
                 else if e = CHR ''u'' then
                   (case getu4 s of
                      None \<Rightarrow> None
                    | Some rr \<Rightarrow>
                        if IsSurrogate rr then
                          (if utf16_DecodeRune rr (getu4 (drop 6 s)) \<noteq> RuneError
                           then Some (EncodeRune (utf16_DecodeRune rr (getu4 (drop 6 s))), 12)
                           else Some (EncodeRune RuneError, 6))
                        else Some (EncodeRune rr, 6))
                 else None)
          else if c = DQ \<or> c < CHR 0x20 then None
          else if c < CHR 0x80 then Some ([c], 1)
          else (if DecodeRune_size s = 0 then Some (EncodeRune RuneError, 1)
                else Some (take (DecodeRune_size s) s, DecodeRune_size s)))"

fun unquote_body :: "string \<Rightarrow> string option" where
  "unquote_body [] = Some []"
| "unquote_body (c # s) =
     (case unquote_step (c # s) of
        None \<Rightarrow> None
      | Some (out, n) \<Rightarrow> map_option ((@) out) (unquote_body (drop (n - 1) s)))"

definition unquote :: "string \<Rightarrow> string option" where
  "unquote item =
     (if length item < 2 \<or> hd item \<noteq> DQ \<or> last item \<noteq> DQ then None
      else unquote_body (butlast (tl item)))"

definition digit_value :: "char \<Rightarrow> nat" where
  "digit_value c = of_char c - of_char CHR ''0''"

text \<open>\<^verbatim>\<open>strconv.ParseUint(s, 10, 64)\<close>.\<close>

definition ParseUint :: "string \<Rightarrow> 64 word option" where
  "ParseUint s =
     (if s = [] \<or> \<not> list_all isDigit s then None
      else (let n = foldl (\<lambda>a c. a * 10 + digit_value c) 0 s
            in if n < 2 ^ 64 then Some (of_nat n) else None))"

subsection \<open>encoding/json: storing a value into a Go value\<close>

text \<open>
  \<^verbatim>\<open>decodeState.saveError\<close> keeps the first error; decoding goes on after it.
\<close>

definition saveError :: "error option \<Rightarrow> error option \<Rightarrow> error option" where
  "saveError saved err = (case saved of None \<Rightarrow> err | Some e \<Rightarrow> Some e)"

text \<open>
  Each store function takes the text of one JSON value (already scanned) and the
  current Go value, and returns the Go value after the store with the error saved, if
  any. \<^verbatim>\<open>null\<close> leaves a bool, a string, a number or a struct as it is and makes a
  slice nil; a JSON value of the wrong kind is an \<^verbatim>\<open>UnmarshalTypeError\<close> and leaves
  the Go value as it is.
\<close>

definition store_bool :: "string \<Rightarrow> bool \<Rightarrow> bool \<times> error option" where
  "store_bool item v =
     (case item of
        [] \<Rightarrow> (v, Some SyntaxError)
      | c # _ \<Rightarrow>
          if c = CHR ''n'' then (v, None)
          else if c = CHR ''t'' then (True, None)
          else if c = CHR ''f'' then (False, None)
          else (v, Some UnmarshalTypeError))"

definition store_string :: "string \<Rightarrow> string \<Rightarrow> string \<times> error option" where
  "store_string item v =
     (case item of
        [] \<Rightarrow> (v, Some SyntaxError)
      | c # _ \<Rightarrow>
          if c = CHR ''n'' then (v, None)
          else if c = DQ then
            (case unquote item of None \<Rightarrow> (v, Some SyntaxError) | Some s \<Rightarrow> (s, None))
          else (v, Some UnmarshalTypeError))"

definition store_uint64 :: "string \<Rightarrow> 64 word \<Rightarrow> 64 word \<times> error option" where
  "store_uint64 item v =
     (case item of
        [] \<Rightarrow> (v, Some SyntaxError)
      | c # _ \<Rightarrow>
          if c = CHR ''n'' then (v, None)
          else if c = CHR ''-'' \<or> isDigit c then
            (case ParseUint item of None \<Rightarrow> (v, Some UnmarshalTypeError) | Some n \<Rightarrow> (n, None))
          else (v, Some UnmarshalTypeError))"

text \<open>\<^verbatim>\<open>json.RawMessage\<close> copies the text of the value, also of \<^verbatim>\<open>null\<close>.\<close>

definition store_RawMessage :: "string \<Rightarrow> string \<Rightarrow> string \<times> error option" where
  "store_RawMessage item v = (item, None)"

text \<open>
  A slice: the elements of a JSON array are stored, in order, into fresh elements
  (the slices the code decodes into are nil when it does).
\<close>

definition store_element ::
  "(string \<Rightarrow> 'a \<Rightarrow> 'a \<times> error option) \<Rightarrow> 'a \<Rightarrow> 'a list \<times> error option \<Rightarrow> string
     \<Rightarrow> 'a list \<times> error option" where
  "store_element store zero acc item =
     (case store item zero of (x, err) \<Rightarrow> (fst acc @ [x], saveError (snd acc) err))"

definition store_slice ::
  "(string \<Rightarrow> 'a \<Rightarrow> 'a \<times> error option) \<Rightarrow> 'a \<Rightarrow> string \<Rightarrow> 'a list \<Rightarrow> 'a list \<times> error option" where
  "store_slice store zero item v =
     (case item of
        [] \<Rightarrow> (v, Some SyntaxError)
      | c # _ \<Rightarrow>
          if c = CHR ''n'' then ([], None)
          else if c = CHR ''['' then
            (case array_elements item of
               None \<Rightarrow> (v, Some SyntaxError)
             | Some es \<Rightarrow> foldl (store_element store zero) ([], None) es)
          else (v, Some UnmarshalTypeError))"

text \<open>
  \<^verbatim>\<open>foldName\<close>: ASCII letters in upper case, and the two letters outside ASCII whose
  case folding is an ASCII letter (U+017F and U+212A). Every other byte is kept: the
  field names are ASCII, so a key with another byte outside ASCII matches none.
\<close>

definition upper_chars :: string where
  "upper_chars = ''ABCDEFGHIJKLMNOPQRSTUVWXYZ''"

definition foldName_step :: "string \<Rightarrow> char \<times> nat" where
  "foldName_step s =
     (case s of
        [] \<Rightarrow> (CHR 0x00, 0)
      | c # _ \<Rightarrow>
          if CHR ''a'' \<le> c \<and> c \<le> CHR ''z'' then (upper_chars ! ((of_char c :: nat) - of_char CHR ''a''), 1)
          else if take 2 s = [CHR 0xC5, CHR 0xBF] then (CHR ''S'', 2)
          else if take 3 s = [CHR 0xE2, CHR 0x84, CHR 0xAA] then (CHR ''K'', 3)
          else (c, 1))"

fun foldName :: "string \<Rightarrow> string" where
  "foldName [] = []"
| "foldName (c # s) =
     (case foldName_step (c # s) of (x, n) \<Rightarrow> x # foldName (drop (n - 1) s))"

text \<open>
  A struct: every member of a JSON object whose key matches a field (exactly or after
  folding) is stored into that field; other members are skipped.
\<close>

definition store_member ::
  "(string \<Rightarrow> string \<Rightarrow> 'a \<Rightarrow> 'a \<times> error option) \<Rightarrow> 'a \<times> error option \<Rightarrow> string \<times> string
     \<Rightarrow> 'a \<times> error option" where
  "store_member field acc m =
     (case unquote (fst m) of
        None \<Rightarrow> (fst acc, saveError (snd acc) (Some SyntaxError))
      | Some key \<Rightarrow>
          (case field key (snd m) (fst acc) of (v, err) \<Rightarrow> (v, saveError (snd acc) err)))"

definition store_struct ::
  "(string \<Rightarrow> string \<Rightarrow> 'a \<Rightarrow> 'a \<times> error option) \<Rightarrow> string \<Rightarrow> 'a \<Rightarrow> 'a \<times> error option" where
  "store_struct field item v =
     (case item of
        [] \<Rightarrow> (v, Some SyntaxError)
      | c # _ \<Rightarrow>
          if c = CHR ''n'' then (v, None)
          else if c = CHR ''{'' then
            (case object_members item of
               None \<Rightarrow> (v, Some SyntaxError)
             | Some ms \<Rightarrow> foldl (store_member field) (v, None) ms)
          else (v, Some UnmarshalTypeError))"

definition Meta_field :: "string \<Rightarrow> string \<Rightarrow> DNSRecord_Meta \<Rightarrow> DNSRecord_Meta \<times> error option" where
  "Meta_field key item m =
     (if foldName key = ''AUTO_ADDED'' then
        (case store_bool item (AutoAdded m) of (x, err) \<Rightarrow> (m\<lparr>AutoAdded := x\<rparr>, err))
      else (m, None))"

definition DNSRecord_field :: "string \<Rightarrow> string \<Rightarrow> DNSRecord \<Rightarrow> DNSRecord \<times> error option" where
  "DNSRecord_field key item d =
     (if foldName key = ''ID'' then
        (case store_string item (Id' d) of (x, err) \<Rightarrow> (d\<lparr>Id' := x\<rparr>, err))
      else if foldName key = ''TYPE'' then
        (case store_string item (Type d) of (x, err) \<Rightarrow> (d\<lparr>Type := x\<rparr>, err))
      else if foldName key = ''NAME'' then
        (case store_string item (Name d) of (x, err) \<Rightarrow> (d\<lparr>Name := x\<rparr>, err))
      else if foldName key = ''CONTENT'' then
        (case store_string item (Content d) of (x, err) \<Rightarrow> (d\<lparr>Content := x\<rparr>, err))
      else if foldName key = ''PROXIABLE'' then
        (case store_bool item (Proxiable d) of (x, err) \<Rightarrow> (d\<lparr>Proxiable := x\<rparr>, err))
      else if foldName key = ''PROXIED'' then
        (case store_bool item (Proxied d) of (x, err) \<Rightarrow> (d\<lparr>Proxied := x\<rparr>, err))
      else if foldName key = ''TTL'' then
        (case store_uint64 item (Ttl d) of (x, err) \<Rightarrow> (d\<lparr>Ttl := x\<rparr>, err))
      else if foldName key = ''LOCKED'' then
        (case store_bool item (Locked d) of (x, err) \<Rightarrow> (d\<lparr>Locked := x\<rparr>, err))
      else if foldName key = ''ZONE_ID'' then
        (case store_string item (ZoneId d) of (x, err) \<Rightarrow> (d\<lparr>ZoneId := x\<rparr>, err))
      else if foldName key = ''ZONE_NAME'' then
        (case store_string item (ZoneName d) of (x, err) \<Rightarrow> (d\<lparr>ZoneName := x\<rparr>, err))
      else if foldName key = ''MODIFIED_ON'' then
        (case store_string item (ModifiedOn d) of (x, err) \<Rightarrow> (d\<lparr>ModifiedOn := x\<rparr>, err))
      else if foldName key = ''CREATED_ON'' then
        (case store_string item (CreatedOn d) of (x, err) \<Rightarrow> (d\<lparr>CreatedOn := x\<rparr>, err))
      else if foldName key = ''META'' then
        (case store_struct Meta_field item (Meta d) of (x, err) \<Rightarrow> (d\<lparr>Meta := x\<rparr>, err))
      else (d, None))"

definition store_DNSRecord :: "string \<Rightarrow> DNSRecord \<Rightarrow> DNSRecord \<times> error option" where
  "store_DNSRecord = store_struct DNSRecord_field"

definition store_DNSRecords :: "string \<Rightarrow> DNSRecord list \<Rightarrow> DNSRecord list \<times> error option" where
  "store_DNSRecords = store_slice store_DNSRecord zero_DNSRecord"

definition store_strings :: "string \<Rightarrow> string list \<Rightarrow> string list \<times> error option" where
  "store_strings = store_slice store_string []"

definition zero_Zone :: Zone where
  "zero_Zone = \<lparr>Zone_Name = [], Zone_Id = [], Zone_Type = [], NameServers = [], Status = [],
     Paused = False, OriginalNameServers = [], DevelopmentMode = 0\<rparr>"

definition Zone_field :: "string \<Rightarrow> string \<Rightarrow> Zone \<Rightarrow> Zone \<times> error option" where
  "Zone_field key item z =
     (if foldName key = ''NAME'' then
        (case store_string item (Zone_Name z) of (x, err) \<Rightarrow> (z\<lparr>Zone_Name := x\<rparr>, err))
      else if foldName key = ''ID'' then
        (case store_string item (Zone_Id z) of (x, err) \<Rightarrow> (z\<lparr>Zone_Id := x\<rparr>, err))
      else if foldName key = ''TYPE'' then
        (case store_string item (Zone_Type z) of (x, err) \<Rightarrow> (z\<lparr>Zone_Type := x\<rparr>, err))
      else if foldName key = ''NAME_SERVERS'' then
        (case store_strings item (NameServers z) of (x, err) \<Rightarrow> (z\<lparr>NameServers := x\<rparr>, err))
      else if foldName key = ''STATUS'' then
        (case store_string item (Status z) of (x, err) \<Rightarrow> (z\<lparr>Status := x\<rparr>, err))
      else if foldName key = ''PAUSED'' then
        (case store_bool item (Paused z) of (x, err) \<Rightarrow> (z\<lparr>Paused := x\<rparr>, err))
      else if foldName key = ''ORIGINAL_NAME_SERVERS'' then
        (case store_strings item (OriginalNameServers z) of
           (x, err) \<Rightarrow> (z\<lparr>OriginalNameServers := x\<rparr>, err))
      else if foldName key = ''DEVELOPMENT_MODE'' then
        (case store_uint64 item (DevelopmentMode z) of (x, err) \<Rightarrow> (z\<lparr>DevelopmentMode := x\<rparr>, err))
      else (z, None))"

definition store_Zones :: "string \<Rightarrow> Zone list \<Rightarrow> Zone list \<times> error option" where
  "store_Zones = store_slice (store_struct Zone_field) zero_Zone"

definition zero_ResultInfo :: Message_ResultInfo where
  "zero_ResultInfo = \<lparr>Page = 0, PerPage = 0, TotalPages = 0, Count = 0, TotalCount = 0\<rparr>"

definition zero_Message :: Message where
  "zero_Message = \<lparr>Success = False, Errors = [], Messages = [], Result = [],
     ResultInfo = zero_ResultInfo\<rparr>"

definition ResultInfo_field ::
  "string \<Rightarrow> string \<Rightarrow> Message_ResultInfo \<Rightarrow> Message_ResultInfo \<times> error option" where
  "ResultInfo_field key item i =
     (if foldName key = ''PAGE'' then
        (case store_uint64 item (Page i) of (x, err) \<Rightarrow> (i\<lparr>Page := x\<rparr>, err))
      else if foldName key = ''PER_PAGE'' then
        (case store_uint64 item (PerPage i) of (x, err) \<Rightarrow> (i\<lparr>PerPage := x\<rparr>, err))
      else if foldName key = ''TOTAL_PAGES'' then
        (case store_uint64 item (TotalPages i) of (x, err) \<Rightarrow> (i\<lparr>TotalPages := x\<rparr>, err))
      else if foldName key = ''COUNT'' then
        (case store_uint64 item (Count i) of (x, err) \<Rightarrow> (i\<lparr>Count := x\<rparr>, err))
      else if foldName key = ''TOTAL_COUNT'' then
        (case store_uint64 item (TotalCount i) of (x, err) \<Rightarrow> (i\<lparr>TotalCount := x\<rparr>, err))
      else (i, None))"

definition Message_field :: "string \<Rightarrow> string \<Rightarrow> Message \<Rightarrow> Message \<times> error option" where
  "Message_field key item m =
     (if foldName key = ''SUCCESS'' then
        (case store_bool item (Success m) of (x, err) \<Rightarrow> (m\<lparr>Success := x\<rparr>, err))
      else if foldName key = ''ERRORS'' then
        (case store_RawMessage item (Errors m) of (x, err) \<Rightarrow> (m\<lparr>Errors := x\<rparr>, err))
      else if foldName key = ''MESSAGES'' then
        (case store_RawMessage item (Messages m) of (x, err) \<Rightarrow> (m\<lparr>Messages := x\<rparr>, err))
      else if foldName key = ''RESULT'' then
        (case store_RawMessage item (Result m) of (x, err) \<Rightarrow> (m\<lparr>Result := x\<rparr>, err))
      else if foldName key = ''RESULT_INFO'' then
        (case store_struct ResultInfo_field item (ResultInfo m) of
           (x, err) \<Rightarrow> (m\<lparr>ResultInfo := x\<rparr>, err))
      else (m, None))"

definition store_Message :: "string \<Rightarrow> Message \<Rightarrow> Message \<times> error option" where
  "store_Message = store_struct Message_field"

subsection \<open>encoding/json: \<^verbatim>\<open>Unmarshal\<close> and \<^verbatim>\<open>Decoder.Decode\<close>\<close>

text \<open>
  \<^verbatim>\<open>json.Unmarshal(data, v)\<close> first checks that \<^verbatim>\<open>data\<close> is one JSON value between
  optional white space, and stores nothing if it is not. The first argument is the
  store function of the type that \<^verbatim>\<open>v\<close> points to.
\<close>

definition Unmarshal ::
  "(string \<Rightarrow> 'a \<Rightarrow> 'a \<times> error option) \<Rightarrow> string \<Rightarrow> 'a \<Rightarrow> 'a \<times> error option" where
  "Unmarshal store data v =
     (case scan_value (scan_fuel data) 0 (skip_space data) of
        None \<Rightarrow> (v, Some SyntaxError)
      | Some rest \<Rightarrow>
          if skip_space rest \<noteq> [] then (v, Some SyntaxError)
          else store (take (length (skip_space data) - length rest) (skip_space data)) v)"

text \<open>
  \<^verbatim>\<open>Decoder.Decode\<close> on a stream that holds \<^verbatim>\<open>body\<close>: the first JSON value of the
  stream is stored, what follows it is not looked at. \<^verbatim>\<open>SyntaxError\<close> stands for
  every error of this step, also for \<^verbatim>\<open>io.EOF\<close> and \<^verbatim>\<open>io.ErrUnexpectedEOF\<close>.
\<close>

definition Decoder_Decode ::
  "(string \<Rightarrow> 'a \<Rightarrow> 'a \<times> error option) \<Rightarrow> string \<Rightarrow> 'a \<Rightarrow> 'a \<times> error option" where
  "Decoder_Decode store body v =
     (case scan_value (scan_fuel body) 0 (skip_space body) of
        None \<Rightarrow> (v, Some SyntaxError)
      | Some rest \<Rightarrow> store (take (length (skip_space body) - length rest) (skip_space body)) v)"


subsection \<open>The request URL of \<^verbatim>\<open>DNSRecordsSvc.Search\<close>\<close>

text \<open>
  Lines 192 to 207 of the source build the query values; line 209 appends them, after a
  question mark, to the URL of the zone's record collection.
\<close>

definition Search_Values :: "string \<Rightarrow> string \<Rightarrow> string \<Rightarrow> 64 word \<Rightarrow> 64 word \<Rightarrow> Values" where
  "Search_Values typeStr name content page perPage =
     (let v0 = [];
          v1 = (if typeStr \<noteq> [] then Values_Add v0 ''type'' typeStr else v0);
          v2 = (if name \<noteq> [] then Values_Add v1 ''name'' name else v1);
          v3 = (if content \<noteq> [] then Values_Add v2 ''content'' content else v2);
          v4 = (if 0 <s page then Values_Add v3 ''page'' (Sprintf_d (sint page)) else v3);
          v5 = (if 5 \<le>s perPage \<and> perPage <s 100
                then Values_Add v4 ''per_page'' (Sprintf_d (sint perPage)) else v4)
      in v5)"

definition Search_url :: "string \<Rightarrow> string \<Rightarrow> string \<Rightarrow> string \<Rightarrow> 64 word \<Rightarrow> 64 word \<Rightarrow> string" where
  "Search_url zoneId typeStr name content page perPage =
     ApiUrlBase @ APiUrlZones @ zoneId @ ApiUrlDnsRecords @ ''?''
       @ Values_Encode (Search_Values typeStr name content page perPage)"


subsection \<open>Configuration and services\<close>

record Config =
  email :: string
  key :: string
  contentType :: string
  insecureSkipVerify :: bool

record BaseSvc =
  config :: "Config option"

record ZonesSvc =
  ZonesSvc_BaseSvc :: BaseSvc

record DNSRecordsSvc =
  DNSRecordsSvc_BaseSvc :: BaseSvc

text \<open>\<^verbatim>\<open>NewConfig\<close> returns a pointer, nil (here \<open>None\<close>) when the email or the key is empty.\<close>

definition NewConfig :: "string \<Rightarrow> string \<Rightarrow> string \<Rightarrow> bool \<Rightarrow> Config option" where
  "NewConfig email' key' contentType' insecureSkipVerify' =
     (if email' = [] \<or> key' = [] then None
      else Some \<lparr>email = email', key = key',
             contentType = (if contentType' = [] then ContentTypeApplicationJson else contentType'),
             insecureSkipVerify = insecureSkipVerify'\<rparr>)"

definition GetZonesSvc :: "Config option \<Rightarrow> ZonesSvc" where
  "GetZonesSvc cfg = \<lparr>ZonesSvc_BaseSvc = \<lparr>config = cfg\<rparr>\<rparr>"

definition GetDNSRecordsSvc :: "Config option \<Rightarrow> DNSRecordsSvc" where
  "GetDNSRecordsSvc cfg = \<lparr>DNSRecordsSvc_BaseSvc = \<lparr>config = cfg\<rparr>\<rparr>"

subsection \<open>The HTTP round trip\<close>

text \<open>
  The platform's HTTP client is a parameter of every operation: a function from the
  request that \<^verbatim>\<open>Invoke\<close> builds to the pair that \<^verbatim>\<open>Invoke\<close> returns, a response or
  nil and an error or nil. It stands for \<^verbatim>\<open>http.NewRequest\<close> followed by
  \<^verbatim>\<open>client.Do\<close>: a request that \<^verbatim>\<open>http.NewRequest\<close> refuses yields no response and an
  error, like a round trip that fails. Of a response the code reads the body only, which
  is modelled by the bytes the stream delivers. A call either returns or, where the
  source dereferences the nil configuration, panics.
\<close>

record Request =
  Method :: string
  URL :: string
  Header :: "(string \<times> string) list"
  RequestBody :: "string option"
  InsecureSkipVerify :: bool

record Response =
  Body :: string

type_synonym transport = "Request \<Rightarrow> Response option \<times> error option"

datatype 'a outcome = Panics | Returns 'a

definition Invoke ::
  "transport \<Rightarrow> BaseSvc \<Rightarrow> string \<Rightarrow> string \<Rightarrow> string option
     \<Rightarrow> (Response option \<times> error option) outcome" where
  "Invoke tr baseSvc method urlStr body =
     (case config baseSvc of
        None \<Rightarrow> Panics
      | Some cfg \<Rightarrow>
          Returns (tr \<lparr>Method = method, URL = urlStr,
                        Header = [(''X-Auth-Email'', email cfg), (''X-Auth-Key'', key cfg),
                                  (''Content-Type'', contentType cfg)],
                        RequestBody = body,
                        InsecureSkipVerify = insecureSkipVerify cfg\<rparr>))"

text \<open>
  \<^verbatim>\<open>Decode\<close>: the envelope is decoded from the body; its payload is decoded into the
  caller's value only when \<^verbatim>\<open>msg.Success\<close> holds. The first argument is the store
  function of the type behind the \<^verbatim>\<open>interface{}\<close> argument.
\<close>

definition Decode ::
  "(string \<Rightarrow> 'a \<Rightarrow> 'a \<times> error option) \<Rightarrow> Response \<Rightarrow> 'a \<Rightarrow> 'a \<times> error option" where
  "Decode store resp result =
     (case Decoder_Decode store_Message (Body resp) zero_Message of
        (msg, err) \<Rightarrow>
          if Success msg then Unmarshal store (Result msg) result else (result, err))"

subsection \<open>The operations\<close>

definition ZonesSvc_Get :: "transport \<Rightarrow> ZonesSvc \<Rightarrow> (Zone list \<times> error option) outcome" where
  "ZonesSvc_Get tr zonesSvc =
     (case Invoke tr (ZonesSvc_BaseSvc zonesSvc) ''GET'' (ApiUrlBase @ APiUrlZones) None of
        Panics \<Rightarrow> Panics
      | Returns (resp, err) \<Rightarrow>
          (case resp of
             None \<Rightarrow> Returns ([], err)
           | Some r \<Rightarrow> Returns (Decode store_Zones r [])))"

definition DNSRecordsSvc_Get ::
  "transport \<Rightarrow> DNSRecordsSvc \<Rightarrow> string \<Rightarrow> (DNSRecord list \<times> error option) outcome" where
  "DNSRecordsSvc_Get tr dnsSvc zoneId =
     (case Invoke tr (DNSRecordsSvc_BaseSvc dnsSvc) ''GET''
             (ApiUrlBase @ APiUrlZones @ zoneId @ ApiUrlDnsRecords) None of
        Panics \<Rightarrow> Panics
      | Returns (resp, err) \<Rightarrow>
          (case resp of
             None \<Rightarrow> Returns ([], err)
           | Some r \<Rightarrow> Returns (Decode store_DNSRecords r [])))"

definition DNSRecordsSvc_Search ::
  "transport \<Rightarrow> DNSRecordsSvc \<Rightarrow> string \<Rightarrow> string \<Rightarrow> string \<Rightarrow> string \<Rightarrow> 64 word \<Rightarrow> 64 word
     \<Rightarrow> (DNSRecord list \<times> error option) outcome" where
  "DNSRecordsSvc_Search tr dnsSvc zoneId typeStr name content page perPage =
     (case Invoke tr (DNSRecordsSvc_BaseSvc dnsSvc) ''GET''
             (Search_url zoneId typeStr name content page perPage) None of
        Panics \<Rightarrow> Panics
      | Returns (resp, err) \<Rightarrow>
          (case resp of
             None \<Rightarrow> Returns ([], err)
           | Some r \<Rightarrow> Returns (Decode store_DNSRecords r [])))"

definition DNSRecordsSvc_Create ::
  "transport \<Rightarrow> DNSRecordsSvc \<Rightarrow> string \<Rightarrow> DNSRecord \<Rightarrow> (DNSRecord \<times> error option) outcome" where
  "DNSRecordsSvc_Create tr dnsSvc zoneId dnsRecord =
     (case Invoke tr (DNSRecordsSvc_BaseSvc dnsSvc) ''POST''
             (ApiUrlBase @ APiUrlZones @ zoneId @ ApiUrlDnsRecords)
             (Some (DNSRecord_String dnsRecord)) of
        Panics \<Rightarrow> Panics
      | Returns (resp, err) \<Rightarrow>
          (case resp of
             None \<Rightarrow> Returns (zero_DNSRecord, err)
           | Some r \<Rightarrow> Returns (Decode store_DNSRecord r zero_DNSRecord)))"

definition DNSRecordsSvc_Update ::
  "transport \<Rightarrow> DNSRecordsSvc \<Rightarrow> string \<Rightarrow> DNSRecord \<Rightarrow> (DNSRecord \<times> error option) outcome" where
  "DNSRecordsSvc_Update tr dnsSvc zoneId dnsRecord =
     (case Invoke tr (DNSRecordsSvc_BaseSvc dnsSvc) ''PUT''
             (ApiUrlBase @ APiUrlZones @ zoneId @ ApiUrlDnsRecords @ Id' dnsRecord)
             (Some (DNSRecord_String dnsRecord)) of
        Panics \<Rightarrow> Panics
      | Returns (resp, err) \<Rightarrow>
          (case resp of
             None \<Rightarrow> Returns (zero_DNSRecord, err)
           | Some r \<Rightarrow> Returns (Decode store_DNSRecord r zero_DNSRecord)))"

definition DNSRecordsSvc_Delete ::
  "transport \<Rightarrow> DNSRecordsSvc \<Rightarrow> string \<Rightarrow> DNSRecord \<Rightarrow> (string \<times> error option) outcome" where
  "DNSRecordsSvc_Delete tr dnsSvc zoneId dnsRecord =
     (case Invoke tr (DNSRecordsSvc_BaseSvc dnsSvc) ''DELETE''
             (ApiUrlBase @ APiUrlZones @ zoneId @ ApiUrlDnsRecords @ Id' dnsRecord) None of
        Panics \<Rightarrow> Panics
      | Returns (resp, err) \<Rightarrow>
          (case resp of
             None \<Rightarrow> Returns ([], err)
           | Some r \<Rightarrow>
               (case Decode store_DNSRecord r zero_DNSRecord of
                  (retDnsRecord, err') \<Rightarrow> Returns (Id' dnsRecord, err'))))"

subsection \<open>Reading a query string\<close>

text \<open>
  \<^verbatim>\<open>strings.Split(q, "&")\<close> and \<^verbatim>\<open>strings.Contains\<close>, used to say which parameters a
  query string holds: a parameter \<^verbatim>\<open>k\<close> is present when one of the components
  between the separators starts with \<^verbatim>\<open>k=\<close>.
\<close>

fun split_on :: "char \<Rightarrow> string \<Rightarrow> string list" where
  "split_on sep [] = [[]]"
| "split_on sep (c # s) =
     (if c = sep then [] # split_on sep s
      else (case split_on sep s of [] \<Rightarrow> [[c]] | p # ps \<Rightarrow> (c # p) # ps))"

definition query_has :: "string \<Rightarrow> string \<Rightarrow> bool" where
  "query_has q k = list_ex (\<lambda>p. take (Suc (length k)) p = k @ ''='') (split_on CHR ''&'' q)"

fun contains :: "string \<Rightarrow> string \<Rightarrow> bool" where
  "contains [] sub = (sub = [])"
| "contains (c # s) sub = (take (length sub) (c # s) = sub \<or> contains s sub)"

fun join_amp :: "string list \<Rightarrow> string" where
  "join_amp [] = []"
| "join_amp [p] = p"
| "join_amp (p # q # ps) = p @ ''&'' @ join_amp (q # ps)"

definition param :: "bool \<Rightarrow> string \<Rightarrow> string \<Rightarrow> string list" where
  "param present k val = (if present then [k @ ''='' @ QueryEscape val] else [])"



subsection \<open>Two transports\<close>

text \<open>
  \<open>echo_url\<close> fails every round trip and reports the URL it was asked for, which makes
  the URL of an operation visible in its result; \<open>answer_with\<close> answers every request
  with the same response.
\<close>

definition echo_url :: transport where
  "echo_url req = (None, Some (TransportError (URL req)))"

definition answer_with :: "Response \<Rightarrow> transport" where
  "answer_with resp req = (Some resp, None)"


section \<open>The request URL of a search\<close>

lemma encode_gen:
  "Values_Encode (let v0 = [];
          v1 = (if bt then Values_Add v0 ''type'' t else v0);
          v2 = (if bn then Values_Add v1 ''name'' n else v1);
          v3 = (if bc then Values_Add v2 ''content'' c else v2);
          v4 = (if bp then Values_Add v3 ''page'' sp else v3);
          v5 = (if bpp then Values_Add v4 ''per_page'' spp else v4)
      in v5) =
     join_amp (param bc ''content'' c @ param bn ''name'' n
       @ param bp ''page'' sp
       @ param bpp ''per_page'' spp
       @ param bt ''type'' t)"
  by (cases bt; cases bn; cases bc; cases bp; cases bpp)
     (simp_all add: Values_Encode_def Values_Add_def Values_Get_all_def
      Encode_write_def param_def shouldEscape_def Let_def)

lemma encode_search:
  "Values_Encode (Search_Values t n c p pp) =
     join_amp (param (c \<noteq> []) ''content'' c @ param (n \<noteq> []) ''name'' n
       @ param (0 <s p) ''page'' (Sprintf_d (sint p))
       @ param (5 \<le>s pp \<and> pp <s 100) ''per_page'' (Sprintf_d (sint pp))
       @ param (t \<noteq> []) ''type'' t)"
  unfolding Search_Values_def by (rule encode_gen)

lemma upperhex_nth: "n < 16 \<Longrightarrow> upperhex ! n \<in> set upperhex"
  by (rule nth_mem) (simp add: upperhex_def)

lemma of_char_div16: "(of_char (c::char) :: nat) div 16 < 16"
proof -
  have "(of_char c :: nat) < 256" by (rule nat_of_char_less_256)
  then show ?thesis by arith
qed

lemma QueryEscape_chars:
  "x \<in> set (QueryEscape s) \<Longrightarrow> x \<noteq> CHR ''&'' \<and> x \<noteq> CHR ''=''"
proof (induction s)
  case Nil
  then show ?case by simp
next
  case (Cons c s)
  have h1: "upperhex ! ((of_char c :: nat) div 16) \<in> set upperhex"
    by (rule upperhex_nth) (rule of_char_div16)
  have h2: "upperhex ! ((of_char c :: nat) mod 16) \<in> set upperhex"
    by (rule upperhex_nth) simp
  have h3: "CHR ''&'' \<notin> set upperhex \<and> CHR ''='' \<notin> set upperhex"
    by (simp add: upperhex_def)
  from Cons h1 h2 h3 show ?case
    by (auto simp: shouldEscape_def split: if_splits)
qed

lemma split_on_no_sep: "sep \<notin> set p \<Longrightarrow> split_on sep (p @ sep # r) = p # split_on sep r"
  by (induction p) auto

lemma split_on_single: "sep \<notin> set p \<Longrightarrow> split_on sep p = [p]"
  by (induction p) auto

lemma split_join_amp:
  "ps \<noteq> [] \<Longrightarrow> \<forall>p\<in>set ps. CHR ''&'' \<notin> set p \<Longrightarrow> split_on CHR ''&'' (join_amp ps) = ps"
proof (induction ps rule: join_amp.induct)
  case 1
  then show ?case by simp
next
  case (2 p)
  then show ?case by (simp add: split_on_single)
next
  case (3 p q ps)
  then show ?case by (simp add: split_on_no_sep)
qed

lemma query_has_join:
  assumes "\<forall>p\<in>set ps. CHR ''&'' \<notin> set p"
  shows "query_has (join_amp ps) k = list_ex (\<lambda>p. take (Suc (length k)) p = k @ ''='') ps"
proof (cases "ps = []")
  case True
  then show ?thesis by (simp add: query_has_def)
next
  case False
  with assms show ?thesis by (simp add: query_has_def split_join_amp)
qed

lemma param_no_amp:
  "CHR ''&'' \<notin> set k \<Longrightarrow> p \<in> set (param b k v) \<Longrightarrow> CHR ''&'' \<notin> set p"
  using QueryEscape_chars by (auto simp: param_def split: if_splits)

lemma search_params_no_amp:
  "\<forall>p\<in>set (param bc ''content'' c @ param bn ''name'' n @ param bp ''page'' sp
       @ param bpp ''per_page'' spp @ param bt ''type'' t). CHR ''&'' \<notin> set p"
  by (auto dest!: param_no_amp [rotated])

lemma query_has_search:
  "query_has (join_amp (param bc ''content'' c @ param bn ''name'' n @ param bp ''page'' sp
       @ param bpp ''per_page'' spp @ param bt ''type'' t)) ''page'' = bp"
  "query_has (join_amp (param bc ''content'' c @ param bn ''name'' n @ param bp ''page'' sp
       @ param bpp ''per_page'' spp @ param bt ''type'' t)) ''per_page'' = bpp"
  "query_has (join_amp (param bc ''content'' c @ param bn ''name'' n @ param bp ''page'' sp
       @ param bpp ''per_page'' spp @ param bt ''type'' t)) ''content'' = bc"
  "query_has (join_amp (param bc ''content'' c @ param bn ''name'' n @ param bp ''page'' sp
       @ param bpp ''per_page'' spp @ param bt ''type'' t)) ''name'' = bn"
  "query_has (join_amp (param bc ''content'' c @ param bn ''name'' n @ param bp ''page'' sp
       @ param bpp ''per_page'' spp @ param bt ''type'' t)) ''type'' = bt"
  by (simp_all only: query_has_join [OF search_params_no_amp]) (simp_all add: param_def)


lemma invoke_echo_url:
  "config b = Some cfg \<Longrightarrow> Invoke echo_url b m u bd = Returns (None, Some (TransportError u))"
  by (simp add: Invoke_def echo_url_def)

text \<open>
  C3. The query string that \<^verbatim>\<open>Search\<close> appends to the URL holds the parameter
  \<^verbatim>\<open>page\<close> exactly when \<^verbatim>\<open>page > 0\<close>, and the parameter \<^verbatim>\<open>per_page\<close> exactly when
  \<^verbatim>\<open>5 <= perPage < 100\<close>. The URL is observed through a transport that answers with
  the URL it was asked for.
\<close>

theorem search_pagination_parameters:
  "(config (DNSRecordsSvc_BaseSvc svc) = Some cfg \<longrightarrow>
      DNSRecordsSvc_Search echo_url svc z t n c p pp =
        Returns ([], Some (TransportError (ApiUrlBase @ APiUrlZones @ z @ ApiUrlDnsRecords @ ''?''
          @ Values_Encode (Search_Values t n c p pp)))))
   \<and> (query_has (Values_Encode (Search_Values t n c p pp)) ''page'' \<longleftrightarrow> 0 <s p)
   \<and> (query_has (Values_Encode (Search_Values t n c p pp)) ''per_page'' \<longleftrightarrow> 5 \<le>s pp \<and> pp <s 100)"
proof -
  have "config (DNSRecordsSvc_BaseSvc svc) = Some cfg \<Longrightarrow>
      DNSRecordsSvc_Search echo_url svc z t n c p pp =
        Returns ([], Some (TransportError (ApiUrlBase @ APiUrlZones @ z @ ApiUrlDnsRecords @ ''?''
          @ Values_Encode (Search_Values t n c p pp))))"
    by (simp add: DNSRecordsSvc_Search_def invoke_echo_url Search_url_def)
  moreover have "query_has (Values_Encode (Search_Values t n c p pp)) ''page'' \<longleftrightarrow> 0 <s p"
    by (simp only: encode_search query_has_search)
  moreover have "query_has (Values_Encode (Search_Values t n c p pp)) ''per_page''
      \<longleftrightarrow> 5 \<le>s pp \<and> pp <s 100"
    by (simp only: encode_search query_has_search)
  ultimately show ?thesis by blast
qed

theorem search_pagination_parameters_witness:
  "\<not> query_has (Values_Encode (Search_Values [] [] [] 0 4)) ''per_page''
   \<and> query_has (Values_Encode (Search_Values [] [] [] 0 5)) ''per_page''
   \<and> query_has (Values_Encode (Search_Values [] [] [] 0 99)) ''per_page''
   \<and> \<not> query_has (Values_Encode (Search_Values [] [] [] 0 100)) ''per_page''
   \<and> \<not> query_has (Values_Encode (Search_Values [] [] [] 0 5)) ''page''
   \<and> query_has (Values_Encode (Search_Values [] [] [] 1 5)) ''page''
   \<and> DNSRecordsSvc_Search echo_url
        (GetDNSRecordsSvc (NewConfig ''me@example.com'' ''k'' [] False)) ''z1'' [] [] [] 1 5 =
      Returns ([], Some (TransportError
        ''https://api.cloudflare.com/client/v4/zones/z1/dns_records/?page=1&per_page=5''))"
proof -
  have cfg: "config (DNSRecordsSvc_BaseSvc (GetDNSRecordsSvc (NewConfig ''me@example.com'' ''k'' [] False)))
      = Some \<lparr>email = ''me@example.com'', key = ''k'', contentType = ContentTypeApplicationJson,
          insecureSkipVerify = False\<rparr>"
    by (simp add: GetDNSRecordsSvc_def NewConfig_def)
  have q: "Values_Encode (Search_Values [] [] [] 1 5) = ''page=1&per_page=5''"
    by (simp add: encode_search param_def join_amp.simps Sprintf_d_def decimal.simps digit_chars_def
        shouldEscape_def word_sless_alt word_sle_eq)
  show ?thesis
    using search_pagination_parameters [of _ _ "''z1''" "[]" "[]" "[]" 0 4]
      search_pagination_parameters [of _ _ "''z1''" "[]" "[]" "[]" 0 5]
      search_pagination_parameters [of _ _ "''z1''" "[]" "[]" "[]" 0 99]
      search_pagination_parameters [of _ _ "''z1''" "[]" "[]" "[]" 0 100]
      search_pagination_parameters [of "GetDNSRecordsSvc (NewConfig ''me@example.com'' ''k'' [] False)"
        "\<lparr>email = ''me@example.com'', key = ''k'', contentType = ContentTypeApplicationJson,
          insecureSkipVerify = False\<rparr>" "''z1''" "[]" "[]" "[]" 1 5] cfg q
    by (simp add: word_sless_alt word_sle_eq ApiUrlBase_def APiUrlZones_def ApiUrlDnsRecords_def)
qed

text \<open>
  C4, as the specification states it: the query string of
  \<^verbatim>\<open>Search(zoneId, "A", "ww1.example.com", "", 0, 0)\<close> would contain
  \<^verbatim>\<open>type=A&name=ww1.example.com\<close>. It does not: \<^verbatim>\<open>Values.Encode\<close> sorts by key.
\<close>

theorem search_query_order_counterexample:
  "\<not> contains (Values_Encode (Search_Values ''A'' ''ww1.example.com'' [] 0 0))
        ''type=A&name=ww1.example.com''"
  by (simp add: encode_search param_def shouldEscape_def word_sless_alt word_sle_eq)

text \<open>
  C4, amended. The query string of that call is \<^verbatim>\<open>name=ww1.example.com&type=A\<close>: it
  holds the parameters \<^verbatim>\<open>name\<close> and \<^verbatim>\<open>type\<close>, ordered by key, and no \<^verbatim>\<open>content\<close>,
  \<^verbatim>\<open>page\<close> or \<^verbatim>\<open>per_page\<close>. In general the query string of \<^verbatim>\<open>Search\<close> is the list of
  the parameters that are present, in the order \<^verbatim>\<open>content\<close>, \<^verbatim>\<open>name\<close>, \<^verbatim>\<open>page\<close>,
  \<^verbatim>\<open>per_page\<close>, \<^verbatim>\<open>type\<close>, each written \<^verbatim>\<open>key=\<close> and the URL-escaped value, joined
  by \<^verbatim>\<open>&\<close>.
\<close>

theorem search_query_sorted_by_key:
  "Values_Encode (Search_Values ''A'' ''ww1.example.com'' [] 0 0) = ''name=ww1.example.com&type=A''
   \<and> Search_url z ''A'' ''ww1.example.com'' [] 0 0 =
       ApiUrlBase @ APiUrlZones @ z @ ApiUrlDnsRecords @ ''?name=ww1.example.com&type=A''
   \<and> \<not> query_has (Values_Encode (Search_Values ''A'' ''ww1.example.com'' [] 0 0)) ''content''
   \<and> \<not> query_has (Values_Encode (Search_Values ''A'' ''ww1.example.com'' [] 0 0)) ''page''
   \<and> \<not> query_has (Values_Encode (Search_Values ''A'' ''ww1.example.com'' [] 0 0)) ''per_page''
   \<and> Values_Encode (Search_Values t n c p pp) =
       join_amp (param (c \<noteq> []) ''content'' c @ param (n \<noteq> []) ''name'' n
         @ param (0 <s p) ''page'' (Sprintf_d (sint p))
         @ param (5 \<le>s pp \<and> pp <s 100) ''per_page'' (Sprintf_d (sint pp))
         @ param (t \<noteq> []) ''type'' t)"
proof -
  have q: "Values_Encode (Search_Values ''A'' ''ww1.example.com'' [] 0 0) = ''name=ww1.example.com&type=A''"
    by (simp add: encode_search param_def shouldEscape_def word_sless_alt word_sle_eq)
  have "\<not> query_has (Values_Encode (Search_Values ''A'' ''ww1.example.com'' [] 0 0)) ''content''"
    "\<not> query_has (Values_Encode (Search_Values ''A'' ''ww1.example.com'' [] 0 0)) ''page''"
    "\<not> query_has (Values_Encode (Search_Values ''A'' ''ww1.example.com'' [] 0 0)) ''per_page''"
    by (simp_all only: encode_search query_has_search) (simp_all add: word_sless_alt word_sle_eq)
  with q encode_search [of t n c p pp] show ?thesis
    by (simp add: Search_url_def)
qed

theorem search_query_sorted_by_key_witness:
  "Values_Encode (Search_Values ''A'' ''a b&c'' ''x/y'' 2 50) =
     ''content=x%2Fy&name=a+b%26c&page=2&per_page=50&type=A''"
proof -
  have "Values_Encode (Search_Values ''A'' ''a b&c'' ''x/y'' 2 50) =
       join_amp (param (''x/y'' \<noteq> []) ''content'' ''x/y'' @ param (''a b&c'' \<noteq> []) ''name'' ''a b&c''
         @ param (0 <s (2::64 word)) ''page'' (Sprintf_d (sint (2::64 word)))
         @ param (5 \<le>s (50::64 word) \<and> (50::64 word) <s 100) ''per_page'' (Sprintf_d (sint (50::64 word)))
         @ param (''A'' \<noteq> []) ''type'' ''A'')"
    using search_query_sorted_by_key [of "[]" "''A''" "''a b&c''" "''x/y''" 2 50] by blast
  then show ?thesis
    by (simp add: param_def Sprintf_d_def decimal.simps digit_chars_def shouldEscape_def upperhex_def
        word_sless_alt word_sle_eq)
qed

text \<open>
  C10. \<^verbatim>\<open>Search\<close> always puts a question mark between the URL of the record collection
  and the encoded parameters; when every parameter is dropped the URL ends with the bare
  question mark.
\<close>

theorem search_url_question_mark:
  "(config (DNSRecordsSvc_BaseSvc svc) = Some cfg \<longrightarrow>
      DNSRecordsSvc_Search echo_url svc z t n c p pp =
        Returns ([], Some (TransportError (Search_url z t n c p pp))))
   \<and> Search_url z t n c p pp =
       (ApiUrlBase @ APiUrlZones @ z @ ApiUrlDnsRecords) @ ''?'' @ Values_Encode (Search_Values t n c p pp)
   \<and> (t = [] \<and> n = [] \<and> c = [] \<and> \<not> 0 <s p \<and> \<not> (5 \<le>s pp \<and> pp <s 100) \<longrightarrow>
        Search_url z t n c p pp = ApiUrlBase @ APiUrlZones @ z @ ApiUrlDnsRecords @ ''?'')"
proof -
  have "t = [] \<and> n = [] \<and> c = [] \<and> \<not> 0 <s p \<and> \<not> (5 \<le>s pp \<and> pp <s 100) \<Longrightarrow>
      Values_Encode (Search_Values t n c p pp) = []"
    by (simp only: encode_search) (simp add: param_def)
  then show ?thesis
    by (auto simp: DNSRecordsSvc_Search_def invoke_echo_url Search_url_def)
qed

theorem search_url_question_mark_witness:
  "DNSRecordsSvc_Search echo_url
        (GetDNSRecordsSvc (NewConfig ''me@example.com'' ''k'' [] False)) ''z1'' [] [] [] 0 100 =
      Returns ([], Some (TransportError ''https://api.cloudflare.com/client/v4/zones/z1/dns_records/?''))"
proof -
  have cfg: "config (DNSRecordsSvc_BaseSvc (GetDNSRecordsSvc (NewConfig ''me@example.com'' ''k'' [] False)))
      = Some \<lparr>email = ''me@example.com'', key = ''k'', contentType = ContentTypeApplicationJson,
          insecureSkipVerify = False\<rparr>"
    by (simp add: GetDNSRecordsSvc_def NewConfig_def)
  have h: "[] = [] \<and> [] = [] \<and> [] = [] \<and> \<not> 0 <s (0::64 word) \<and> \<not> (5 \<le>s (100::64 word) \<and> (100::64 word) <s 100)"
    by (simp add: word_sless_alt word_sle_eq)
  note inst = search_url_question_mark [of "GetDNSRecordsSvc (NewConfig ''me@example.com'' ''k'' [] False)"
      "\<lparr>email = ''me@example.com'', key = ''k'', contentType = ContentTypeApplicationJson,
          insecureSkipVerify = False\<rparr>" "''z1''" "[]" "[]" "[]" 0 100]
  from inst cfg have a: "DNSRecordsSvc_Search echo_url
        (GetDNSRecordsSvc (NewConfig ''me@example.com'' ''k'' [] False)) ''z1'' [] [] [] 0 100 =
      Returns ([], Some (TransportError (Search_url ''z1'' [] [] [] 0 100)))"
    by blast
  from inst h have b: "Search_url ''z1'' [] [] [] 0 100 = ApiUrlBase @ APiUrlZones @ ''z1'' @ ApiUrlDnsRecords @ ''?''"
    by blast
  show ?thesis
    unfolding a b by (simp add: ApiUrlBase_def APiUrlZones_def ApiUrlDnsRecords_def)
qed

section \<open>The envelope gate of Decode\<close>

lemma Unmarshal_empty: "Unmarshal store [] v = (v, Some SyntaxError)"
  by (simp add: Unmarshal_def scan_fuel_def skip_space_def)

lemma transport_answers:
  assumes "\<forall>req. fst (tr req) = Some resp"
  shows "\<exists>e. tr req = (Some resp, e)"
proof -
  from assms have "fst (tr req) = Some resp" by blast
  then show ?thesis by (cases "tr req") simp
qed

lemma invoke_answers:
  assumes "config b = Some cfg" and "\<forall>req. fst (tr req) = Some resp"
  shows "\<exists>e. Invoke tr b m u bd = Returns (Some resp, e)"
  using assms(1) transport_answers [OF assms(2)] by (simp add: Invoke_def)

lemma decode_gate:
  assumes "Decoder_Decode store_Message (Body resp) zero_Message = (msg, err)" and "\<not> Success msg"
  shows "Decode store resp result = (result, err)"
  using assms by (simp add: Decode_def)

text \<open>
  C2. When the decoded envelope has \<^verbatim>\<open>Success = false\<close>, \<^verbatim>\<open>Decode\<close> returns the
  caller's value as it was, with the error of the envelope step, whatever the payload
  holds and whatever the store function of the caller's type is: the payload is not
  decoded.
\<close>

theorem decode_success_false_keeps_target:
  assumes "Decoder_Decode store_Message (Body resp) zero_Message = (msg, err)" and "\<not> Success msg"
  shows "Decode store resp result = (result, err)"
  using assms by (simp add: Decode_def)

theorem decode_success_false_keeps_target_witness:
  "Decode store_DNSRecord \<lparr>Body = ''{\"success\":false,\"result\":{\"id\":\"x1\"}}''\<rparr> zero_DNSRecord
     = (zero_DNSRecord, None)
   \<and> fst (Unmarshal store_DNSRecord ''{\"id\":\"x1\"}'' zero_DNSRecord) = zero_DNSRecord\<lparr>Id' := ''x1''\<rparr>"
proof -
  have h: "Decoder_Decode store_Message (Body \<lparr>Body = ''{\"success\":false,\"result\":{\"id\":\"x1\"}}''\<rparr>)
      zero_Message = (zero_Message\<lparr>Result := ''{\"id\":\"x1\"}''\<rparr>, None)"
    by code_simp
  have s: "\<not> Success (zero_Message\<lparr>Result := ''{\"id\":\"x1\"}''\<rparr>)"
    by (simp add: zero_Message_def)
  have u: "fst (Unmarshal store_DNSRecord ''{\"id\":\"x1\"}'' zero_DNSRecord) = zero_DNSRecord\<lparr>Id' := ''x1''\<rparr>"
    by code_simp
  from decode_success_false_keeps_target [OF h s, of store_DNSRecord zero_DNSRecord] u
  show ?thesis by simp
qed

text \<open>
  C9. When the envelope decodes without error and has \<^verbatim>\<open>Success = true\<close> but its raw
  payload is empty (the body has no \<^verbatim>\<open>result\<close> member), \<^verbatim>\<open>Decode\<close> returns the error
  of \<^verbatim>\<open>json.Unmarshal\<close> on the empty input and leaves the caller's value as it was.
\<close>

theorem decode_success_without_result_fails:
  assumes "Decoder_Decode store_Message (Body resp) zero_Message = (msg, None)"
    and "Success msg" and "Result msg = []"
  shows "Decode store resp result = (result, Some SyntaxError)"
  using assms by (simp add: Decode_def Unmarshal_empty)

theorem decode_success_without_result_fails_witness:
  "Decode store_DNSRecords \<lparr>Body = ''{\"success\":true}''\<rparr> [] = ([], Some SyntaxError)"
proof -
  have h: "Decoder_Decode store_Message (Body \<lparr>Body = ''{\"success\":true}''\<rparr>) zero_Message
      = (zero_Message\<lparr>Success := True\<rparr>, None)"
    by code_simp
  have s: "Success (zero_Message\<lparr>Success := True\<rparr>)" by simp
  have r: "Result (zero_Message\<lparr>Success := True\<rparr>) = []" by (simp add: zero_Message_def)
  from decode_success_without_result_fails [OF h s r] show ?thesis .
qed

text \<open>
  C1, as the specification states it: with a well-formed envelope that has
  \<^verbatim>\<open>success = false\<close>, every operation would return the zero value of its result type
  and no error. \<^verbatim>\<open>Delete\<close> does not: it returns the id of the record it was given.
\<close>

theorem delete_success_false_counterexample:
  "Decoder_Decode store_Message
      (Body \<lparr>Body = ''{\"success\":false,\"errors\":[{\"code\":81044}],\"messages\":[],\"result\":null}''\<rparr>)
      zero_Message
    = (zero_Message\<lparr>Errors := ''[{\"code\":81044}]'', Messages := ''[]'', Result := ''null''\<rparr>, None)
   \<and> \<not> Success (zero_Message\<lparr>Errors := ''[{\"code\":81044}]'', Messages := ''[]'', Result := ''null''\<rparr>)
   \<and> DNSRecordsSvc_Delete
        (answer_with \<lparr>Body = ''{\"success\":false,\"errors\":[{\"code\":81044}],\"messages\":[],\"result\":null}''\<rparr>)
        (GetDNSRecordsSvc (NewConfig ''me@example.com'' ''k'' [] False)) ''z1''
        (zero_DNSRecord\<lparr>Id' := ''abc123''\<rparr>)
      = Returns (''abc123'', None)
   \<and> Returns (''abc123'', None) \<noteq> Returns ([], None :: error option)"
  by code_simp

text \<open>
  C1, amended. When the transport answers with a response whose body decodes, without
  error, to an envelope with \<^verbatim>\<open>Success = false\<close>, then \<^verbatim>\<open>ZonesSvc.Get\<close> and
  \<^verbatim>\<open>DNSRecordsSvc.Get\<close>, \<^verbatim>\<open>Search\<close>, \<^verbatim>\<open>Create\<close> and \<^verbatim>\<open>Update\<close> return the zero value
  of their result type with a nil error, and \<^verbatim>\<open>Delete\<close> returns the id of the record it
  was given with a nil error: no operation signals the failure.
\<close>

theorem success_false_no_error_signal:
  assumes "config (ZonesSvc_BaseSvc zonesSvc) = Some zcfg"
    and "config (DNSRecordsSvc_BaseSvc dnsSvc) = Some dcfg"
    and "\<forall>req. fst (tr req) = Some resp"
    and "Decoder_Decode store_Message (Body resp) zero_Message = (msg, None)"
    and "\<not> Success msg"
  shows "ZonesSvc_Get tr zonesSvc = Returns ([], None)
    \<and> DNSRecordsSvc_Get tr dnsSvc zoneId = Returns ([], None)
    \<and> DNSRecordsSvc_Search tr dnsSvc zoneId typeStr name content page perPage = Returns ([], None)
    \<and> DNSRecordsSvc_Create tr dnsSvc zoneId d = Returns (zero_DNSRecord, None)
    \<and> DNSRecordsSvc_Update tr dnsSvc zoneId d = Returns (zero_DNSRecord, None)
    \<and> DNSRecordsSvc_Delete tr dnsSvc zoneId d = Returns (Id' d, None)"
proof -
  note gate = decode_gate [OF assms(4) assms(5)]
  have "ZonesSvc_Get tr zonesSvc = Returns ([], None)"
    using invoke_answers [OF assms(1) assms(3), of "''GET''" "ApiUrlBase @ APiUrlZones" None]
    by (auto simp: ZonesSvc_Get_def gate)
  moreover have "DNSRecordsSvc_Get tr dnsSvc zoneId = Returns ([], None)"
    using invoke_answers [OF assms(2) assms(3), of "''GET''"
        "ApiUrlBase @ APiUrlZones @ zoneId @ ApiUrlDnsRecords" None]
    by (auto simp: DNSRecordsSvc_Get_def gate)
  moreover have "DNSRecordsSvc_Search tr dnsSvc zoneId typeStr name content page perPage = Returns ([], None)"
    using invoke_answers [OF assms(2) assms(3), of "''GET''"
        "Search_url zoneId typeStr name content page perPage" None]
    by (auto simp: DNSRecordsSvc_Search_def gate)
  moreover have "DNSRecordsSvc_Create tr dnsSvc zoneId d = Returns (zero_DNSRecord, None)"
    using invoke_answers [OF assms(2) assms(3), of "''POST''"
        "ApiUrlBase @ APiUrlZones @ zoneId @ ApiUrlDnsRecords" "Some (DNSRecord_String d)"]
    by (auto simp: DNSRecordsSvc_Create_def gate)
  moreover have "DNSRecordsSvc_Update tr dnsSvc zoneId d = Returns (zero_DNSRecord, None)"
    using invoke_answers [OF assms(2) assms(3), of "''PUT''"
        "ApiUrlBase @ APiUrlZones @ zoneId @ ApiUrlDnsRecords @ Id' d" "Some (DNSRecord_String d)"]
    by (auto simp: DNSRecordsSvc_Update_def gate)
  moreover have "DNSRecordsSvc_Delete tr dnsSvc zoneId d = Returns (Id' d, None)"
    using invoke_answers [OF assms(2) assms(3), of "''DELETE''"
        "ApiUrlBase @ APiUrlZones @ zoneId @ ApiUrlDnsRecords @ Id' d" None]
    by (auto simp: DNSRecordsSvc_Delete_def gate)
  ultimately show ?thesis by blast
qed

theorem success_false_no_error_signal_witness:
  "ZonesSvc_Get (answer_with \<lparr>Body = ''{\"success\":false,\"result\":[{\"id\":\"z1\"}]}''\<rparr>)
      (GetZonesSvc (NewConfig ''me@example.com'' ''k'' [] False)) = Returns ([], None)
   \<and> DNSRecordsSvc_Create (answer_with \<lparr>Body = ''{\"success\":false,\"result\":[{\"id\":\"z1\"}]}''\<rparr>)
      (GetDNSRecordsSvc (NewConfig ''me@example.com'' ''k'' [] False)) ''z1''
      (zero_DNSRecord\<lparr>Name := ''a.example.com''\<rparr>) = Returns (zero_DNSRecord, None)
   \<and> DNSRecordsSvc_Delete (answer_with \<lparr>Body = ''{\"success\":false,\"result\":[{\"id\":\"z1\"}]}''\<rparr>)
      (GetDNSRecordsSvc (NewConfig ''me@example.com'' ''k'' [] False)) ''z1''
      (zero_DNSRecord\<lparr>Id' := ''abc123''\<rparr>) = Returns (''abc123'', None)"
proof -
  have z: "config (ZonesSvc_BaseSvc (GetZonesSvc (NewConfig ''me@example.com'' ''k'' [] False)))
      = Some \<lparr>email = ''me@example.com'', key = ''k'', contentType = ContentTypeApplicationJson,
          insecureSkipVerify = False\<rparr>"
    by (simp add: GetZonesSvc_def NewConfig_def)
  have c: "config (DNSRecordsSvc_BaseSvc (GetDNSRecordsSvc (NewConfig ''me@example.com'' ''k'' [] False)))
      = Some \<lparr>email = ''me@example.com'', key = ''k'', contentType = ContentTypeApplicationJson,
          insecureSkipVerify = False\<rparr>"
    by (simp add: GetDNSRecordsSvc_def NewConfig_def)
  have t: "\<forall>req. fst (answer_with \<lparr>Body = ''{\"success\":false,\"result\":[{\"id\":\"z1\"}]}''\<rparr> req)
      = Some \<lparr>Body = ''{\"success\":false,\"result\":[{\"id\":\"z1\"}]}''\<rparr>"
    by (simp add: answer_with_def)
  have h: "Decoder_Decode store_Message (Body \<lparr>Body = ''{\"success\":false,\"result\":[{\"id\":\"z1\"}]}''\<rparr>)
      zero_Message = (zero_Message\<lparr>Result := ''[{\"id\":\"z1\"}]''\<rparr>, None)"
    by code_simp
  have s: "\<not> Success (zero_Message\<lparr>Result := ''[{\"id\":\"z1\"}]''\<rparr>)"
    by (simp add: zero_Message_def)
  note inst = success_false_no_error_signal [OF z c t h s]
  from inst [of "''z1''" "[]" "[]" "[]" 0 0 "zero_DNSRecord\<lparr>Name := ''a.example.com''\<rparr>"]
    inst [of "''z1''" "[]" "[]" "[]" 0 0 "zero_DNSRecord\<lparr>Id' := ''abc123''\<rparr>"]
  show ?thesis by simp
qed

text \<open>
  C7. Whenever the transport answers with a response, \<^verbatim>\<open>Delete\<close> returns the id of the
  record it was given, together with the error of \<^verbatim>\<open>Decode\<close>; the record decoded from
  the payload is dropped.
\<close>

theorem delete_returns_input_id:
  assumes "config (DNSRecordsSvc_BaseSvc dnsSvc) = Some cfg"
    and "\<forall>req. fst (tr req) = Some resp"
  shows "DNSRecordsSvc_Delete tr dnsSvc zoneId d
           = Returns (Id' d, snd (Decode store_DNSRecord resp zero_DNSRecord))"
  using invoke_answers [OF assms, of "''DELETE''"
      "ApiUrlBase @ APiUrlZones @ zoneId @ ApiUrlDnsRecords @ Id' d" None]
  by (auto simp: DNSRecordsSvc_Delete_def split: prod.splits)

theorem delete_returns_input_id_witness:
  "DNSRecordsSvc_Delete (answer_with \<lparr>Body = ''{\"success\":true,\"result\":{\"id\":\"zzz999\"}}''\<rparr>)
      (GetDNSRecordsSvc (NewConfig ''me@example.com'' ''k'' [] False)) ''z1''
      (zero_DNSRecord\<lparr>Id' := ''abc123''\<rparr>) = Returns (''abc123'', None)
   \<and> Decode store_DNSRecord \<lparr>Body = ''{\"success\":true,\"result\":{\"id\":\"zzz999\"}}''\<rparr> zero_DNSRecord
      = (zero_DNSRecord\<lparr>Id' := ''zzz999''\<rparr>, None)"
proof -
  have c: "config (DNSRecordsSvc_BaseSvc (GetDNSRecordsSvc (NewConfig ''me@example.com'' ''k'' [] False)))
      = Some \<lparr>email = ''me@example.com'', key = ''k'', contentType = ContentTypeApplicationJson,
          insecureSkipVerify = False\<rparr>"
    by (simp add: GetDNSRecordsSvc_def NewConfig_def)
  have t: "\<forall>req. fst (answer_with \<lparr>Body = ''{\"success\":true,\"result\":{\"id\":\"zzz999\"}}''\<rparr> req)
      = Some \<lparr>Body = ''{\"success\":true,\"result\":{\"id\":\"zzz999\"}}''\<rparr>"
    by (simp add: answer_with_def)
  have dec: "Decode store_DNSRecord \<lparr>Body = ''{\"success\":true,\"result\":{\"id\":\"zzz999\"}}''\<rparr> zero_DNSRecord
      = (zero_DNSRecord\<lparr>Id' := ''zzz999''\<rparr>, None)"
    by code_simp
  from delete_returns_input_id [OF c t, of "''z1''" "zero_DNSRecord\<lparr>Id' := ''abc123''\<rparr>"] dec
  show ?thesis by simp
qed



end
